theory Spec2Isabelle
  imports Complex_Main "HOL-Library.Multiset" "HOL-Library.Product_Lexorder"
begin

section \<open>The vector store behind \<open>PgvectorService\<close>\<close>

text \<open>
  \<open>pgvector_service.py\<close> is a thin layer over a relational store with a vector column.
  The service's own control flow is translated from the source: the connection that is opened
  first and never committed, the \<open>try\<close> around the registry query, the \<open>docs is not None\<close>
  test, the choice of \<open>overwrite\<close>, the query with its single \<open>order_by\<close> and its \<open>limit(k)\<close>,
  the conversion \<open>1 - distance\<close>. The store and the vector-store class the service calls
  (\<open>PGVector\<close>, the SQL session) are not among the sources; they are modelled below, each
  definition saying what it stands for.

  Every exception is a value of \<open>error\<close>. An operation takes the world and returns its result
  together with the world it leaves behind.
\<close>

datatype error =
    StoreUnavailable
  | EmbeddingFailure
  | UndefinedTable
  | InsufficientPrivilege
  | InvalidRowCountInLimit
  | NumericValueOutOfRange
  | DimensionMismatch
  | CollectionNotFound

type_synonym 'a result = "error + 'a"

type_synonym vector = "real list"

text \<open>
  A floating-point value as the store returns it and Python holds it: a number, or \<open>NaN\<close>.
  Floating-point arithmetic itself is not modelled: the store's distance operator is a
  component of the world (below), not a formula.
\<close>

datatype float8 = Num real | NaN

text \<open>\<open>langchain_core.documents.Document\<close>: the text of a chunk and its metadata.\<close>

record doc =
  page_content :: string
  metadata :: "(string \<times> string) list"

text \<open>
  Modelled from the spec: the two tables of the store, which the sources use but do not declare.
  The collection registry \<open>langchain_pg_collection\<close> maps a name to an internal identifier; the
  embedding table \<open>langchain_pg_embedding\<close> holds, per chunk, the owning collection's identifier,
  the vector, the text and a custom id. The fields of \<open>collection_row\<close> are in column order:
  \<open>get_collections\<close> reads \<open>row[0]\<close> and documents its result as the collection names, so the
  first column is the name. Identifiers are natural numbers here.
\<close>

record collection_row =
  name :: string
  collection_metadata :: "(string \<times> string) list"
  uuid :: nat

record embedding_row =
  collection_id :: nat
  embedding :: vector
  document :: string
  cmetadata :: "(string \<times> string) list"
  custom_id :: nat

text \<open>
  The world an operation runs in:
  \<^item> whether a connection to the store can be opened (\<open>engine.connect()\<close>, \<open>Session(engine)\<close>);
  \<^item> the two tables as committed (\<open>None\<close>: the table does not exist);
  \<^item> whether a query on the registry table, when it exists, succeeds (it does not when the
    connecting role may not read it);
  \<^item> the store's cosine-distance operator \<open>embedding.cosine_distance(query_vector)\<close>, which
    the store computes in floating point: for vectors of norm zero, or whose squared norm
    overflows or underflows, it returns \<open>NaN\<close>;
  \<^item> the texts that were sent to the embedding provider so far.
\<close>

record world =
  connectable :: bool
  collection_table :: "collection_row list option"
  embedding_table :: "embedding_row list option"
  registry_readable :: bool
  cosine_distance :: "vector \<Rightarrow> vector \<Rightarrow> float8"
  embed_log :: "string list"

definition collection_rows :: "world \<Rightarrow> collection_row list" where
  "collection_rows w = (case collection_table w of None \<Rightarrow> [] | Some rows \<Rightarrow> rows)"

definition embedding_rows :: "world \<Rightarrow> embedding_row list" where
  "embedding_rows w = (case embedding_table w of None \<Rightarrow> [] | Some rows \<Rightarrow> rows)"

subsection \<open>The embedding provider\<close>

text \<open>
  The provider is a parameter \<open>embeddings\<close>: the vector of a text, or \<open>None\<close> when the provider
  fails. \<open>get_vector\<close> is the source's method (one \<open>embed_query\<close> call); \<open>embed_documents\<close> is
  the provider's batch call, one vector per text. Both record the texts they were given.
\<close>

definition get_vector ::
  "(string \<Rightarrow> vector option) \<Rightarrow> string \<Rightarrow> world \<Rightarrow> vector result \<times> world" where
  "get_vector embeddings text w =
     ((case embeddings text of None \<Rightarrow> Inl EmbeddingFailure | Some v \<Rightarrow> Inr v),
      w\<lparr>embed_log := embed_log w @ [text]\<rparr>)"

definition embed_documents ::
  "(string \<Rightarrow> vector option) \<Rightarrow> string list \<Rightarrow> world \<Rightarrow> vector list result \<times> world" where
  "embed_documents embeddings texts w =
     ((case those (map embeddings texts) of None \<Rightarrow> Inl EmbeddingFailure | Some vs \<Rightarrow> Inr vs),
      w\<lparr>embed_log := embed_log w @ texts\<rparr>)"

subsection \<open>Floating-point values: the store's order and Python's \<open>1 - x\<close>\<close>

text \<open>
  \<open>ORDER BY ... ASC\<close> on a floating-point column: numbers in increasing order, \<open>NaN\<close> after
  every number. \<open>order_key\<close> is the sort key that gives this order, \<open>float8_le\<close> the order
  itself.
\<close>

definition order_key :: "float8 \<Rightarrow> nat \<times> real" where
  "order_key d = (case d of Num x \<Rightarrow> (0, x) | NaN \<Rightarrow> (1, 0))"

definition float8_le :: "float8 \<Rightarrow> float8 \<Rightarrow> bool" where
  "float8_le a b =
     (case b of NaN \<Rightarrow> True | Num y \<Rightarrow> (case a of NaN \<Rightarrow> False | Num x \<Rightarrow> x \<le> y))"

text \<open>
  Python's \<open>1 - x\<close> on the distance a row came back with, and Python's \<open>a <= b\<close> on scores
  (false when either side is \<open>NaN\<close>). The distances the store returns are doubles in
  \<open>[0, 2]\<close> of the form \<open>1.0 - s\<close>, for which the subtraction from \<open>1\<close> is exact.
\<close>

definition one_minus :: "float8 \<Rightarrow> float8" where
  "one_minus d = (case d of Num x \<Rightarrow> Num (1 - x) | NaN \<Rightarrow> NaN)"


subsection \<open>The ordered, limited query\<close>

text \<open>
  The query of \<open>custom_similarity_search_with_scores\<close>:
  \<open>session.query(document, custom_id, distance).order_by(distance.asc()).limit(k).all()\<close>
  with \<open>distance = embedding.cosine_distance(query_vector)\<close>. Each result is the triple of the
  three selected columns. The store's behaviour is modelled: ordering ascending and taking the
  first \<open>k\<close> are from the spec (steps 2 and 3); the errors are the store's own. The row count of
  \<open>LIMIT\<close> is a 64-bit integer: a value outside its range is rejected, and so is a negative
  one; a distance between vectors of different dimensions is rejected once a row is read (with
  \<open>LIMIT 0\<close> no row is read). The order among rows of equal distance is not fixed by the
  query; the model keeps the table's order among them.
\<close>

definition select_columns :: "world \<Rightarrow> vector \<Rightarrow> embedding_row \<Rightarrow> string \<times> nat \<times> float8" where
  "select_columns w query_vector e =
     (document e, custom_id e, cosine_distance w (embedding e) query_vector)"

definition distance_of :: "string \<times> nat \<times> float8 \<Rightarrow> float8" where
  "distance_of r = snd (snd r)"

definition query_order_by_limit ::
  "world \<Rightarrow> vector \<Rightarrow> int \<Rightarrow> embedding_row list \<Rightarrow> (string \<times> nat \<times> float8) list result"
  where
  "query_order_by_limit w query_vector k rows =
     (if k < - (2 ^ 63) \<or> 2 ^ 63 \<le> k then Inl NumericValueOutOfRange
      else if k < 0 then Inl InvalidRowCountInLimit
      else if k = 0 then Inr []
      else if list_ex (\<lambda>e. length (embedding e) \<noteq> length query_vector) rows
        then Inl DimensionMismatch
      else Inr (take (nat k)
                  (sort_key (\<lambda>r. order_key (distance_of r))
                     (map (select_columns w query_vector) rows))))"

subsection \<open>The vector-store class \<open>PGVector\<close>, inside a connection\<close>

text \<open>
  A fresh identifier stands for \<open>uuid.uuid4()\<close>: a value that occurs nowhere in the store.
\<close>

definition used_ids :: "world \<Rightarrow> nat list" where
  "used_ids w =
     map uuid (collection_rows w) @ map collection_id (embedding_rows w)
       @ map custom_id (embedding_rows w)"

definition fresh_uuid :: "world \<Rightarrow> nat" where
  "fresh_uuid w = Suc (fold max (used_ids w) 0)"

text \<open>
  Modelled from the spec: the constructor of \<open>PGVector\<close> and the class methods the service
  calls, which are not among the sources. They work on the connection they are given; the
  world they return is the store as that connection sees it. Constructing a \<open>PGVector\<close> creates
  the tables that do not exist (a table this connection creates it can read) and then the
  collection: with \<open>pre_delete_collection\<close> the registered collection of that name is deleted
  first (\<open>overwrite=true\<close>: "deletes all existing rows for that collection"), then the registry
  row is looked up by name and created when absent ("creating the collection registry row
  first"). Deleting a collection "deletes the registry row and cascades delete to all
  embedding rows referencing it", and "deleting a name that does not exist succeeds silently".
  The lookup by name takes the first registry row of that name; the constructor raises when
  the registry cannot be read.
\<close>

definition create_tables_if_not_exists :: "world \<Rightarrow> world" where
  "create_tables_if_not_exists w =
     w\<lparr>collection_table := Some (collection_rows w),
       embedding_table := Some (embedding_rows w),
       registry_readable := (collection_table w = None \<or> registry_readable w)\<rparr>"

definition get_by_name :: "string \<Rightarrow> world \<Rightarrow> collection_row option" where
  "get_by_name collection_name w = find (\<lambda>c. name c = collection_name) (collection_rows w)"

definition PGVector_delete_collection :: "string \<Rightarrow> world \<Rightarrow> world" where
  "PGVector_delete_collection collection_name w =
     (case get_by_name collection_name w of
        None \<Rightarrow> w
      | Some c \<Rightarrow>
          w\<lparr>collection_table :=
              map_option (filter (\<lambda>r. uuid r \<noteq> uuid c)) (collection_table w),
            embedding_table :=
              map_option (filter (\<lambda>e. collection_id e \<noteq> uuid c)) (embedding_table w)\<rparr>)"

definition get_or_create :: "string \<Rightarrow> world \<Rightarrow> world" where
  "get_or_create collection_name w =
     (case get_by_name collection_name w of
        Some c \<Rightarrow> w
      | None \<Rightarrow>
          w\<lparr>collection_table :=
              map_option
                (\<lambda>rows. rows @
                   [\<lparr>name = collection_name, collection_metadata = [], uuid = fresh_uuid w\<rparr>])
                (collection_table w)\<rparr>)"

definition create_collection :: "string \<Rightarrow> bool \<Rightarrow> world \<Rightarrow> world" where
  "create_collection collection_name pre_delete_collection w =
     get_or_create collection_name
       (if pre_delete_collection then PGVector_delete_collection collection_name w else w)"

definition PGVector_init :: "string \<Rightarrow> bool \<Rightarrow> world \<Rightarrow> unit result \<times> world" where
  "PGVector_init collection_name pre_delete_collection w =
     (let w0 = create_tables_if_not_exists w
      in if \<not> registry_readable w0 then (Inl InsufficientPrivilege, w0)
         else (Inr (), create_collection collection_name pre_delete_collection w0))"

text \<open>
  Modelled from the spec: \<open>add_embeddings\<close> inserts one row per chunk, "preserving input order
  as insertion order", under the identifier of the collection registered by that name; each row
  gets a fresh custom id.
\<close>

definition new_rows ::
  "nat \<Rightarrow> nat \<Rightarrow> string list \<Rightarrow> (string \<times> string) list list \<Rightarrow> vector list
     \<Rightarrow> embedding_row list" where
  "new_rows cid first_id texts metadatas vectors =
     map (\<lambda>(i, text, md, v).
            \<lparr>collection_id = cid, embedding = v, document = text, cmetadata = md,
             custom_id = first_id + i\<rparr>)
       (zip [0..<length texts] (zip texts (zip metadatas vectors)))"

definition add_embeddings ::
  "string list \<Rightarrow> (string \<times> string) list list \<Rightarrow> vector list \<Rightarrow> string \<Rightarrow> world
     \<Rightarrow> unit result \<times> world" where
  "add_embeddings texts metadatas vectors collection_name w =
     (case get_by_name collection_name w of
        None \<Rightarrow> (Inl CollectionNotFound, w)
      | Some c \<Rightarrow>
          (Inr (),
           w\<lparr>embedding_table :=
               map_option (\<lambda>rows. rows @ new_rows (uuid c) (fresh_uuid w) texts metadatas vectors)
                 (embedding_table w)\<rparr>))"

text \<open>
  Modelled from the spec: \<open>PGVector.from_documents\<close> "embeds and inserts every chunk". The
  vectors are computed first; then the \<open>PGVector\<close> is constructed and the rows are added.
\<close>

definition PGVector_from_documents ::
  "(string \<Rightarrow> vector option) \<Rightarrow> doc list \<Rightarrow> string \<Rightarrow> bool \<Rightarrow> world
     \<Rightarrow> unit result \<times> world" where
  "PGVector_from_documents embeddings documents collection_name pre_delete_collection w =
     (let texts = map page_content documents;
          metadatas = map metadata documents
      in case embed_documents embeddings texts w of
           (Inl e, w1) \<Rightarrow> (Inl e, w1)
         | (Inr vectors, w1) \<Rightarrow>
             (case PGVector_init collection_name pre_delete_collection w1 of
                (Inl e, w2) \<Rightarrow> (Inl e, w2)
              | (Inr u, w2) \<Rightarrow> add_embeddings texts metadatas vectors collection_name w2))"

section \<open>\<open>PgvectorService\<close>\<close>

text \<open>
  \<open>custom_similarity_search_with_scores\<close> (lines 60 to 87): the query is embedded first, then
  a session runs the ordered, limited query over the embedding table, and every result
  \<open>(document, custom_id, distance)\<close> becomes \<open>(Document(page_content=document), 1 - distance)\<close>.
\<close>

definition to_scored :: "string \<times> nat \<times> float8 \<Rightarrow> doc \<times> float8" where
  "to_scored r = (\<lparr>page_content = fst r, metadata = []\<rparr>, one_minus (distance_of r))"

definition custom_similarity_search_with_scores ::
  "(string \<Rightarrow> vector option) \<Rightarrow> string \<Rightarrow> int \<Rightarrow> world
     \<Rightarrow> (doc \<times> float8) list result \<times> world"
  where
  "custom_similarity_search_with_scores embeddings query k w =
     (case get_vector embeddings query w of
        (Inl e, w1) \<Rightarrow> (Inl e, w1)
      | (Inr query_vector, w1) \<Rightarrow>
          if \<not> connectable w1 then (Inl StoreUnavailable, w1)
          else case embedding_table w1 of
                 None \<Rightarrow> (Inl UndefinedTable, w1)
               | Some rows \<Rightarrow>
                   (case query_order_by_limit w1 query_vector k rows of
                      Inl e \<Rightarrow> (Inl e, w1)
                    | Inr results \<Rightarrow> (Inr (map to_scored results), w1)))"

text \<open>
  The service opens a connection with \<open>with self.engine.connect() as connection:\<close>, hands it
  to \<open>PGVector\<close> (\<open>connection=connection\<close>) and never commits it. What the library writes, it
  writes in that connection's transaction; leaving the \<open>with\<close> block, normally or by an
  exception, closes the connection and the transaction is rolled back. The store is then as
  it was when the connection was opened; only what happened outside the store (the calls to
  the provider) remains.
\<close>

definition close_without_commit :: "world \<Rightarrow> world \<Rightarrow> world" where
  "close_without_commit opened inside = opened\<lparr>embed_log := embed_log inside\<rparr>"

text \<open>
  \<open>update_pgvector_collection\<close> (lines 91 to 107): the connection is opened, in it
  \<open>PGVector.from_documents\<close> runs with \<open>pre_delete_collection = overwrite\<close>, and the
  connection is closed without a commit.
\<close>

definition update_pgvector_collection ::
  "(string \<Rightarrow> vector option) \<Rightarrow> doc list \<Rightarrow> string \<Rightarrow> bool \<Rightarrow> world
     \<Rightarrow> unit result \<times> world" where
  "update_pgvector_collection embeddings docs collection_name overwrite w =
     (if \<not> connectable w then (Inl StoreUnavailable, w)
      else case PGVector_from_documents embeddings docs collection_name overwrite w of
             (r, inside) \<Rightarrow> (r, close_without_commit w inside))"

text \<open>
  \<open>get_collections\<close> (lines 109 to 119): the connection is opened outside the \<open>try\<close>; inside
  it the registry is queried and \<open>row[0]\<close> of every row is returned in table order; any
  exception of the query (the table does not exist, the table cannot be read) is caught by the
  bare \<open>except\<close> and gives the empty list. It writes nothing, so it returns only its result.
\<close>

definition select_from_collection :: "world \<Rightarrow> collection_row list result" where
  "select_from_collection w =
     (case collection_table w of
        None \<Rightarrow> Inl UndefinedTable
      | Some rows \<Rightarrow> if registry_readable w then Inr rows else Inl InsufficientPrivilege)"

definition get_collections :: "world \<Rightarrow> string list result" where
  "get_collections w =
     (if \<not> connectable w then Inl StoreUnavailable
      else Inr (case select_from_collection w of
                  Inl e \<Rightarrow> []
                | Inr rows \<Rightarrow> map name rows))"

text \<open>
  \<open>update_collection\<close> (lines 121 to 128): the registered names are read first; only
  \<open>docs = None\<close> skips the update, and \<open>overwrite\<close> is whether the name is among the names read.
\<close>

definition update_collection ::
  "(string \<Rightarrow> vector option) \<Rightarrow> doc list option \<Rightarrow> string \<Rightarrow> world \<Rightarrow> unit result \<times> world"
  where
  "update_collection embeddings docs collection_name w =
     (case get_collections w of
        Inl e \<Rightarrow> (Inl e, w)
      | Inr names \<Rightarrow>
          (case docs of
             None \<Rightarrow> (Inr (), w)
           | Some ds \<Rightarrow>
               update_pgvector_collection embeddings ds collection_name
                 (collection_name \<in> set names) w))"

text \<open>
  \<open>delete_collection\<close> (lines 130 to 140): the connection is opened, in it a \<open>PGVector\<close> for
  the name is constructed (which registers the name when it is not registered) and its
  collection is deleted, and the connection is closed without a commit.
\<close>

definition delete_collection :: "string \<Rightarrow> world \<Rightarrow> unit result \<times> world" where
  "delete_collection collection_name w =
     (if \<not> connectable w then (Inl StoreUnavailable, w)
      else case PGVector_init collection_name False w of
             (Inl e, inside) \<Rightarrow> (Inl e, close_without_commit w inside)
           | (Inr u, inside) \<Rightarrow>
               (Inr (),
                close_without_commit w (PGVector_delete_collection collection_name inside)))"

section \<open>Predicates of the claims\<close>

text \<open>A name is registered when a row of the registry table carries it.\<close>

definition registered :: "string \<Rightarrow> world \<Rightarrow> bool" where
  "registered collection_name w = (collection_name \<in> set (map name (collection_rows w)))"

text \<open>
  The rows of a collection: the embedding rows that reference a registry row of that name.
\<close>

definition rows_of :: "string \<Rightarrow> world \<Rightarrow> embedding_row list" where
  "rows_of collection_name w =
     filter
       (\<lambda>e. collection_id e \<in>
              set (map uuid (filter (\<lambda>c. name c = collection_name) (collection_rows w))))
       (embedding_rows w)"

text \<open>
  Concrete inputs. A stub provider. The spec's formula \<open>1 - cosine_similarity(a, b)\<close>, which
  the store's operator agrees with where its floating point is exact, as on the vectors of the
  stub, and \<open>NaN\<close> for a vector of norm zero. A store holding collection \<open>A\<close> (two chunks) and
  collection \<open>B\<close> (one chunk whose vector equals that of a chunk of \<open>A\<close>); a store whose tables
  were never created; and the first store with a registry that cannot be read.
\<close>

definition stub_embed :: "string \<Rightarrow> vector option" where
  "stub_embed t =
     (if t = ''red fox'' then Some [1, 0]
      else if t = ''crimson fox'' then Some [1, 0]
      else if t = ''blue sky'' then Some [0, 1]
      else None)"

definition dot :: "vector \<Rightarrow> vector \<Rightarrow> real" where
  "dot a b = sum_list (map2 (*) a b)"

definition spec_cosine_distance :: "vector \<Rightarrow> vector \<Rightarrow> float8" where
  "spec_cosine_distance a b =
     (if dot a a * dot b b = 0 then NaN
      else Num (1 - dot a b / sqrt (dot a a * dot b b)))"

definition demo_store :: world where
  "demo_store =
     \<lparr>connectable = True,
      collection_table =
        Some [\<lparr>name = ''A'', collection_metadata = [], uuid = 1\<rparr>,
              \<lparr>name = ''B'', collection_metadata = [], uuid = 2\<rparr>],
      embedding_table =
        Some [\<lparr>collection_id = 1, embedding = [1, 0], document = ''red fox'', cmetadata = [],
               custom_id = 3\<rparr>,
              \<lparr>collection_id = 1, embedding = [0, 1], document = ''blue sky'', cmetadata = [],
               custom_id = 4\<rparr>,
              \<lparr>collection_id = 2, embedding = [1, 0], document = ''crimson fox'',
               cmetadata = [], custom_id = 5\<rparr>],
      registry_readable = True,
      cosine_distance = spec_cosine_distance,
      embed_log = []\<rparr>"

definition no_tables :: world where
  "no_tables =
     \<lparr>connectable = True, collection_table = None, embedding_table = None,
      registry_readable = True, cosine_distance = spec_cosine_distance, embed_log = []\<rparr>"

definition locked_registry :: world where
  "locked_registry = demo_store\<lparr>registry_readable := False\<rparr>"

section \<open>Lemmas about the store and the service\<close>

subsection \<open>Lookup by name\<close>

lemma get_by_name_None: "get_by_name n w = None \<longleftrightarrow> \<not> registered n w"
  by (auto simp add: get_by_name_def registered_def find_None_iff)

lemma registered_get_by_name: "registered n w \<Longrightarrow> \<exists>c. get_by_name n w = Some c"
  using get_by_name_None [of n w] by (cases "get_by_name n w") auto

subsection \<open>What the library leaves outside the tables\<close>

lemma create_tables_frame [simp]:
  "collection_rows (create_tables_if_not_exists w) = collection_rows w"
  "embedding_rows (create_tables_if_not_exists w) = embedding_rows w"
  "collection_table (create_tables_if_not_exists w) = Some (collection_rows w)"
  "embedding_table (create_tables_if_not_exists w) = Some (embedding_rows w)"
  "embed_log (create_tables_if_not_exists w) = embed_log w"
  "registry_readable (create_tables_if_not_exists w) =
     (collection_table w = None \<or> registry_readable w)"
  by (simp_all add: create_tables_if_not_exists_def collection_rows_def embedding_rows_def)

lemma delete_frame [simp]:
  "embed_log (PGVector_delete_collection n w) = embed_log w"
  "(collection_table (PGVector_delete_collection n w) = None) = (collection_table w = None)"
  by (auto simp add: PGVector_delete_collection_def split: option.splits)

lemma get_or_create_frame [simp]:
  "embed_log (get_or_create n w) = embed_log w"
  "(collection_table (get_or_create n w) = None) = (collection_table w = None)"
  by (auto simp add: get_or_create_def split: option.splits)

lemma get_or_create_registers:
  assumes "collection_table w \<noteq> None"
  shows "registered n (get_or_create n w)"
proof (cases "get_by_name n w")
  case None
  then show ?thesis using assms
    by (force simp add: get_or_create_def registered_def collection_rows_def)
next
  case (Some c)
  then have "registered n w" using get_by_name_None [of n w] by simp
  then show ?thesis using Some by (simp add: get_or_create_def)
qed

lemma create_collection_frame [simp]:
  "embed_log (create_collection n pre w) = embed_log w"
  by (simp add: create_collection_def)

lemma create_collection_registers:
  "collection_table w \<noteq> None \<Longrightarrow> registered n (create_collection n pre w)"
  by (simp add: create_collection_def get_or_create_registers del: not_None_eq)

lemma init_embed_log [simp]: "embed_log (snd (PGVector_init n pre w)) = embed_log w"
  by (simp add: PGVector_init_def Let_def)

lemma init_result:
  "fst (PGVector_init n pre w) =
     (if collection_table w = None \<or> registry_readable w then Inr ()
      else Inl InsufficientPrivilege)"
  by (simp add: PGVector_init_def Let_def)

lemma init_registers:
  "collection_table w = None \<or> registry_readable w \<Longrightarrow>
   registered n (snd (PGVector_init n pre w))"
  by (simp add: PGVector_init_def Let_def create_collection_registers)

lemma add_embeddings_embed_log [simp]:
  "embed_log (snd (add_embeddings texts metadatas vectors n w)) = embed_log w"
  by (simp add: add_embeddings_def split: option.splits)

lemma add_embeddings_result:
  "registered n w \<Longrightarrow> fst (add_embeddings texts metadatas vectors n w) = Inr ()"
  using registered_get_by_name [of n w] by (auto simp add: add_embeddings_def)

lemma from_documents_embed_log:
  "embed_log (snd (PGVector_from_documents embeddings ds n pre w)) =
     embed_log w @ map page_content ds"
proof (cases "those (map embeddings (map page_content ds))")
  case None
  then show ?thesis
    by (simp add: PGVector_from_documents_def embed_documents_def Let_def)
next
  case (Some vs)
  let ?w1 = "w\<lparr>embed_log := embed_log w @ map page_content ds\<rparr>"
  show ?thesis
  proof (cases "PGVector_init n pre ?w1")
    case (Pair r w2)
    then have "embed_log w2 = embed_log w @ map page_content ds"
      using init_embed_log [of n pre ?w1] by simp
    then show ?thesis using Some Pair
      by (cases r) (simp_all add: PGVector_from_documents_def embed_documents_def Let_def)
  qed
qed

lemma from_documents_result:
  assumes "those (map embeddings (map page_content ds)) = Some vs"
    and "collection_table w = None \<or> registry_readable w"
  shows "fst (PGVector_from_documents embeddings ds n pre w) = Inr ()"
proof -
  let ?w1 = "w\<lparr>embed_log := embed_log w @ map page_content ds\<rparr>"
  have usable: "collection_table ?w1 = None \<or> registry_readable ?w1" using assms(2) by simp
  obtain w2 where init: "PGVector_init n pre ?w1 = (Inr (), w2)"
    using init_result [of n pre ?w1] usable by (cases "PGVector_init n pre ?w1") auto
  have "registered n w2" using init_registers [OF usable, of n pre] init by simp
  then show ?thesis using assms(1) init
    by (simp add: PGVector_from_documents_def embed_documents_def Let_def add_embeddings_result)
qed

subsection \<open>The service's writes are never committed\<close>

lemma close_same_log [simp]: "embed_log inside = embed_log w \<Longrightarrow> close_without_commit w inside = w"
  by (simp add: close_without_commit_def)

lemma update_pgvector_collection_world:
  "snd (update_pgvector_collection embeddings ds n overwrite w) =
     (if connectable w then w\<lparr>embed_log := embed_log w @ map page_content ds\<rparr> else w)"
  using from_documents_embed_log [of embeddings ds n overwrite w]
  by (simp add: update_pgvector_collection_def close_without_commit_def case_prod_beta)

lemma update_pgvector_collection_result:
  assumes "connectable w" and "those (map embeddings (map page_content ds)) = Some vs"
    and "collection_table w = None \<or> registry_readable w"
  shows "fst (update_pgvector_collection embeddings ds n overwrite w) = Inr ()"
  using assms(1) from_documents_result [OF assms(2,3), of n overwrite]
  by (simp add: update_pgvector_collection_def case_prod_beta)

lemma get_collections_connectable:
  "connectable w \<Longrightarrow>
   get_collections w = Inr (if registry_readable w then map name (collection_rows w) else [])"
  by (simp add: get_collections_def select_from_collection_def collection_rows_def
      split: option.splits)

lemma get_collections_unavailable:
  "\<not> connectable w \<Longrightarrow> get_collections w = Inl StoreUnavailable"
  by (simp add: get_collections_def)

lemma update_collection_world:
  "snd (update_collection embeddings (Some ds) n w) =
     (if connectable w then w\<lparr>embed_log := embed_log w @ map page_content ds\<rparr> else w)"
  by (simp add: update_collection_def get_collections_connectable get_collections_unavailable
      update_pgvector_collection_world)

lemma update_collection_result:
  assumes "connectable w" and "those (map embeddings (map page_content ds)) = Some vs"
    and "collection_table w = None \<or> registry_readable w"
  shows "fst (update_collection embeddings (Some ds) n w) = Inr ()"
  using assms(1) update_pgvector_collection_result [OF assms]
  by (simp add: update_collection_def get_collections_connectable)

lemma delete_collection_world: "snd (delete_collection n w) = w"
proof (cases "PGVector_init n False w")
  case (Pair r inside)
  then have "embed_log inside = embed_log w" using init_embed_log [of n False w] by simp
  then show ?thesis using Pair by (cases r) (simp_all add: delete_collection_def)
qed

lemma delete_collection_result:
  "fst (delete_collection n w) =
     (if \<not> connectable w then Inl StoreUnavailable
      else if collection_table w = None \<or> registry_readable w then Inr ()
      else Inl InsufficientPrivilege)"
  using init_result [of n False w]
  by (cases "PGVector_init n False w") (auto simp add: delete_collection_def split: sum.splits)

subsection \<open>The store's order\<close>

lemma order_key_le: "order_key a \<le> order_key b \<longleftrightarrow> float8_le a b"
  by (cases a; cases b) (simp_all add: order_key_def float8_le_def)

lemma order_key_inj: "order_key a = order_key b \<Longrightarrow> a = b"
  by (cases a; cases b) (simp_all add: order_key_def)

lemma insort_key_map:
  "insort_key f (g x) (map g ys) = map g (insort_key (\<lambda>y. f (g y)) x ys)"
  by (induction ys) simp_all

lemma sort_key_map: "sort_key f (map g xs) = map g (sort_key (\<lambda>x. f (g x)) xs)"
  by (induction xs) (simp_all add: insort_key_map)

lemma sort_key_hd_least:
  assumes "x \<in> set xs"
  shows "\<exists>y ys. sort_key f xs = y # ys \<and> f y \<le> f x"
proof -
  have "sort_key f xs \<noteq> []" using assms by (metis empty_iff list.set(1) set_sort)
  then obtain y ys where s: "sort_key f xs = y # ys" by (cases "sort_key f xs") auto
  have "sorted (map f (y # ys))" using sorted_sort_key [of f xs] by (simp add: s)
  moreover have "x \<in> set (y # ys)" using assms by (metis s set_sort)
  ultimately show ?thesis using s by auto
qed


subsection \<open>The search on a store that answers\<close>

lemma select_columns_log [simp]:
  "select_columns (w\<lparr>embed_log := l\<rparr>) qv = select_columns w qv"
  by (rule ext) (simp add: select_columns_def)

lemma query_log [simp]:
  "query_order_by_limit (w\<lparr>embed_log := l\<rparr>) qv k rows = query_order_by_limit w qv k rows"
  by (simp add: query_order_by_limit_def)

lemma search_healthy:
  assumes "embeddings query = Some qv" and "connectable w" and "embedding_table w = Some rows"
  shows "custom_similarity_search_with_scores embeddings query k w =
           ((case query_order_by_limit w qv k rows of
               Inl e \<Rightarrow> Inl e | Inr results \<Rightarrow> Inr (map to_scored results)),
            w\<lparr>embed_log := embed_log w @ [query]\<rparr>)"
  using assms
  by (simp add: custom_similarity_search_with_scores_def get_vector_def split: sum.splits)

lemma to_scored_select:
  "to_scored (select_columns w qv e) =
     (\<lparr>page_content = document e, metadata = []\<rparr>,
      one_minus (cosine_distance w (embedding e) qv))"
  by (simp add: to_scored_def select_columns_def distance_of_def)

lemma query_positive:
  assumes "1 \<le> k" and "k < 2 ^ 63" and "\<forall>e\<in>set rows. length (embedding e) = length qv"
  shows "query_order_by_limit w qv k rows =
           Inr (map (select_columns w qv)
                  (take (nat k)
                     (sort_key (\<lambda>e. order_key (cosine_distance w (embedding e) qv)) rows)))"
proof -
  have "sort_key (\<lambda>r. order_key (distance_of r)) (map (select_columns w qv) rows) =
          map (select_columns w qv)
            (sort_key (\<lambda>e. order_key (cosine_distance w (embedding e) qv)) rows)"
    by (simp add: sort_key_map select_columns_def distance_of_def)
  then show ?thesis using assms
    by (auto simp add: query_order_by_limit_def list_ex_iff take_map)
qed

lemma search_positive:
  assumes "embeddings query = Some qv" and "connectable w" and "embedding_table w = Some rows"
    and "\<forall>e\<in>set rows. length (embedding e) = length qv" and "1 \<le> k" and "k < 2 ^ 63"
  shows "custom_similarity_search_with_scores embeddings query k w =
           (Inr (map (\<lambda>e. (\<lparr>page_content = document e, metadata = []\<rparr>,
                            one_minus (cosine_distance w (embedding e) qv)))
                   (take (nat k)
                      (sort_key (\<lambda>e. order_key (cosine_distance w (embedding e) qv)) rows))),
            w\<lparr>embed_log := embed_log w @ [query]\<rparr>)"
  using search_healthy [of embeddings query qv w rows k, OF assms(1,2,3)]
    query_positive [OF assms(5,6,4), of w]
  by (simp add: to_scored_select comp_def)

subsection \<open>The concrete store\<close>

lemma demo_store_facts:
  "connectable demo_store"
  "registry_readable demo_store"
  "cosine_distance demo_store = spec_cosine_distance"
  "embedding_table demo_store =
     Some [\<lparr>collection_id = 1, embedding = [1, 0], document = ''red fox'', cmetadata = [],
            custom_id = 3\<rparr>,
           \<lparr>collection_id = 1, embedding = [0, 1], document = ''blue sky'', cmetadata = [],
            custom_id = 4\<rparr>,
           \<lparr>collection_id = 2, embedding = [1, 0], document = ''crimson fox'',
            cmetadata = [], custom_id = 5\<rparr>]"
  "collection_table demo_store =
     Some [\<lparr>name = ''A'', collection_metadata = [], uuid = 1\<rparr>,
           \<lparr>name = ''B'', collection_metadata = [], uuid = 2\<rparr>]"
  by (simp_all add: demo_store_def)

lemma spec_distance_stub [simp]:
  "spec_cosine_distance [1, 0] [1, 0] = Num 0"
  "spec_cosine_distance [0, 1] [0, 1] = Num 0"
  "spec_cosine_distance [1, 0] [0, 1] = Num 1"
  "spec_cosine_distance [0, 1] [1, 0] = Num 1"
  by (simp_all add: spec_cosine_distance_def dot_def)

lemma demo_store_rows:
  "map document (rows_of ''A'' demo_store) = [''red fox'', ''blue sky'']"
  "get_collections demo_store = Inr [''A'', ''B'']"
  by (simp_all add: rows_of_def get_collections_def select_from_collection_def
      collection_rows_def embedding_rows_def demo_store_def)

section \<open>The claims\<close>

text \<open>
  C1. The claim: for a registered name, \<open>update_collection\<close> with the chunks \<open>chunks_v2\<close>
  replaces the collection's contents. The code does not: the library's delete and inserts run
  in the service's connection, which is closed without a commit. On the store with collection
  \<open>A\<close> holding \<open>red fox\<close> and \<open>blue sky\<close>, the update of \<open>A\<close> with the chunk
  \<open>crimson fox\<close> returns without an error and the rows of \<open>A\<close> are still \<open>red fox\<close> and
  \<open>blue sky\<close>.
\<close>

theorem update_collection_does_not_replace:
  "stub_embed ''crimson fox'' = Some [1, 0]
   \<and> map document (rows_of ''A'' demo_store) = [''red fox'', ''blue sky'']
   \<and> fst (update_collection stub_embed
             (Some [\<lparr>page_content = ''crimson fox'', metadata = []\<rparr>]) ''A'' demo_store) = Inr ()
   \<and> map document
        (rows_of ''A''
           (snd (update_collection stub_embed
                   (Some [\<lparr>page_content = ''crimson fox'', metadata = []\<rparr>]) ''A'' demo_store))) =
       [''red fox'', ''blue sky'']"
proof -
  let ?ds = "[\<lparr>page_content = ''crimson fox'', metadata = []\<rparr>]"
  have e: "stub_embed ''crimson fox'' = Some [1, 0]" by (simp add: stub_embed_def)
  have ok: "fst (update_collection stub_embed (Some ?ds) ''A'' demo_store) = Inr ()"
    by (rule update_collection_result [where vs = "[[1, 0]]"])
       (simp_all add: demo_store_facts stub_embed_def)
  have "snd (update_collection stub_embed (Some ?ds) ''A'' demo_store) =
          demo_store\<lparr>embed_log := embed_log demo_store @ map page_content ?ds\<rparr>"
    by (simp add: update_collection_world demo_store_facts)
  then have "rows_of ''A'' (snd (update_collection stub_embed (Some ?ds) ''A'' demo_store)) =
               rows_of ''A'' demo_store"
    by (simp add: rows_of_def collection_rows_def embedding_rows_def)
  then show ?thesis using e ok demo_store_rows(1) by simp
qed

text \<open>
  C2. \<open>get_collections\<close> returns exactly the registered names: when the registry can be
  read, every name of a row of the registry table is in the list it returns and every element
  of the list is such a name; when it cannot be read the list is empty.
\<close>

theorem get_collections_exact:
  assumes "connectable w"
  shows "\<exists>names. get_collections w = Inr names
           \<and> (\<forall>n. n \<in> set names \<longleftrightarrow> registry_readable w \<and> registered n w)"
  using assms by (simp add: get_collections_connectable registered_def)

theorem get_collections_exact_witness:
  "connectable demo_store \<and> registry_readable demo_store
     \<and> get_collections demo_store = Inr [''A'', ''B'']
     \<and> registered ''A'' demo_store \<and> registered ''B'' demo_store \<and> \<not> registered ''C'' demo_store"
  using get_collections_exact [of demo_store]
  by (simp add: demo_store_def get_collections_def select_from_collection_def registered_def
      collection_rows_def)

text \<open>
  C3. The claim: after \<open>update_collection\<close> has returned without an error, the collection
  name is among the names \<open>get_collections\<close> returns. The code does not register the name,
  for the reason given at C1: on the store with collections \<open>A\<close> and \<open>B\<close>, the update of
  \<open>C\<close> with the chunk \<open>red fox\<close> returns without an error and \<open>get_collections\<close> still
  returns \<open>A\<close> and \<open>B\<close>.
\<close>

theorem update_collection_does_not_register:
  "stub_embed ''red fox'' = Some [1, 0]
   \<and> fst (update_collection stub_embed
             (Some [\<lparr>page_content = ''red fox'', metadata = []\<rparr>]) ''C'' demo_store) = Inr ()
   \<and> get_collections
        (snd (update_collection stub_embed
                (Some [\<lparr>page_content = ''red fox'', metadata = []\<rparr>]) ''C'' demo_store)) =
       Inr [''A'', ''B'']"
proof -
  let ?ds = "[\<lparr>page_content = ''red fox'', metadata = []\<rparr>]"
  have e: "stub_embed ''red fox'' = Some [1, 0]" by (simp add: stub_embed_def)
  have ok: "fst (update_collection stub_embed (Some ?ds) ''C'' demo_store) = Inr ()"
    by (rule update_collection_result [where vs = "[[1, 0]]"])
       (simp_all add: demo_store_facts stub_embed_def)
  have "snd (update_collection stub_embed (Some ?ds) ''C'' demo_store) =
          demo_store\<lparr>embed_log := embed_log demo_store @ map page_content ?ds\<rparr>"
    by (simp add: update_collection_world demo_store_facts)
  then have "get_collections (snd (update_collection stub_embed (Some ?ds) ''C'' demo_store)) =
               get_collections demo_store"
    by (simp add: get_collections_connectable demo_store_facts collection_rows_def)
  then show ?thesis using e ok demo_store_rows(2) by simp
qed

text \<open>
  C4. With an empty sequence of chunks \<open>update_collection\<close> is a no-op: the world after the
  call is the world before it (no registry row, no embedding row, no text sent to the
  provider, the tables not even created), whatever the name and the state of the store. It is
  not an error whenever the connection opens and the registry, if it exists, can be read.
\<close>

theorem update_collection_empty_noop:
  "snd (update_collection embeddings (Some []) n w) = w
     \<and> (connectable w \<and> (collection_table w = None \<or> registry_readable w) \<longrightarrow>
          update_collection embeddings (Some []) n w = (Inr (), w))"
proof -
  have world: "snd (update_collection embeddings (Some []) n w) = w"
    by (simp add: update_collection_world)
  have "fst (update_collection embeddings (Some []) n w) = Inr ()"
    if "connectable w" "collection_table w = None \<or> registry_readable w"
    using that by (intro update_collection_result [where vs = "[]"]) simp_all
  then show ?thesis using world by (auto simp add: prod_eq_iff)
qed

theorem update_collection_empty_noop_witness:
  "connectable demo_store \<and> registry_readable demo_store
   \<and> update_collection stub_embed (Some []) ''C'' demo_store = (Inr (), demo_store)
   \<and> update_collection stub_embed (Some []) ''A'' demo_store = (Inr (), demo_store)
   \<and> connectable no_tables \<and> collection_table no_tables = None
   \<and> update_collection stub_embed (Some []) ''A'' no_tables = (Inr (), no_tables)"
  using update_collection_empty_noop [of stub_embed "''C''" demo_store]
    update_collection_empty_noop [of stub_embed "''A''" demo_store]
    update_collection_empty_noop [of stub_embed "''A''" no_tables]
  by (simp add: demo_store_facts no_tables_def)




text \<open>
  C6, as stated, fails for a negative \<open>k\<close>: the value is passed to \<open>limit\<close> as it is, and
  the store rejects a negative row count.
\<close>

theorem search_negative_k_raises:
  "fst (custom_similarity_search_with_scores stub_embed ''red fox'' (- 1) demo_store) =
     Inl InvalidRowCountInLimit"
  by (simp add: custom_similarity_search_with_scores_def get_vector_def stub_embed_def
      demo_store_def query_order_by_limit_def)

text \<open>
  C6, amended. With \<open>k = 0\<close> the search returns the empty sequence whatever the embedding
  table holds, provided the query embeds, the connection opens and the table exists; with a
  negative \<open>k\<close> it raises the store's error (for a row count that is negative, or below the
  64-bit range).
\<close>

theorem search_limit_zero:
  assumes "embeddings query = Some qv" and "connectable w" and "embedding_table w = Some rows"
  shows "fst (custom_similarity_search_with_scores embeddings query 0 w) = Inr []
     \<and> (- (2 ^ 63) \<le> k \<and> k < 0 \<longrightarrow>
          fst (custom_similarity_search_with_scores embeddings query k w) =
            Inl InvalidRowCountInLimit)
     \<and> (k < - (2 ^ 63) \<longrightarrow>
          fst (custom_similarity_search_with_scores embeddings query k w) =
            Inl NumericValueOutOfRange)"
  using search_healthy [of embeddings query qv w rows, OF assms]
  by (simp add: query_order_by_limit_def)

theorem search_limit_zero_witness:
  "fst (custom_similarity_search_with_scores stub_embed ''red fox'' 0 demo_store) = Inr []
   \<and> fst (custom_similarity_search_with_scores stub_embed ''red fox'' (- 1) demo_store) =
       Inl InvalidRowCountInLimit"
  using search_limit_zero [of stub_embed "''red fox''" "[1, 0]" demo_store
      "the (embedding_table demo_store)" "- 1"]
  by (simp add: demo_store_facts stub_embed_def)

text \<open>
  C7, as stated, fails when two stored chunks have the same vector: the query orders by distance
  alone, and only one of the two can come first. Here the store holds \<open>red fox\<close> and
  \<open>crimson fox\<close> with the vector of the query \<open>crimson fox\<close>, and the first result is
  \<open>red fox\<close>.
\<close>

theorem search_round_trip_tie:
  "stub_embed ''crimson fox'' = Some [1, 0]
   \<and> map (\<lambda>e. (document e, embedding e)) (embedding_rows demo_store) =
       [(''red fox'', [1, 0]), (''blue sky'', [0, 1]), (''crimson fox'', [1, 0])]
   \<and> fst (custom_similarity_search_with_scores stub_embed ''crimson fox'' 1 demo_store) =
       Inr [(\<lparr>page_content = ''red fox'', metadata = []\<rparr>, Num 1)]"
  by (simp add: custom_similarity_search_with_scores_def get_vector_def stub_embed_def
      demo_store_def embedding_rows_def query_order_by_limit_def select_columns_def
      distance_of_def to_scored_def order_key_def one_minus_def)

text \<open>
  C7, amended. Let a stored chunk have the vector \<open>v\<close>, let the query embed to \<open>v\<close>, and let the
  store compute the distance \<open>0\<close> between \<open>v\<close> and itself and no distance below \<open>0\<close>. Then for
  \<open>1 \<le> k < 2\<^sup>6\<^sup>3\<close> every result is the text of a stored row with the score \<open>1\<close> minus the
  distance the store computes for that row; the first result is a row at distance \<open>0\<close>, with
  score exactly \<open>1\<close>; and it has the text of the chunk whenever every stored row at distance
  \<open>0\<close> from \<open>v\<close> has that text.
\<close>

theorem search_round_trip:
  assumes "embeddings query = Some v" and "connectable w" and "embedding_table w = Some rows"
    and "\<forall>e\<in>set rows. length (embedding e) = length v" and "1 \<le> k" and "k < 2 ^ 63"
    and "chunk \<in> set rows" and "embedding chunk = v"
    and "cosine_distance w v v = Num 0"
    and "\<forall>e\<in>set rows. float8_le (Num 0) (cosine_distance w (embedding e) v)"
  shows "\<exists>first rest w'.
           custom_similarity_search_with_scores embeddings query k w =
             (Inr (map (\<lambda>e. (\<lparr>page_content = document e, metadata = []\<rparr>,
                              one_minus (cosine_distance w (embedding e) v))) (first # rest)), w')
           \<and> first \<in> set rows \<and> set rest \<subseteq> set rows
           \<and> cosine_distance w (embedding first) v = Num 0
           \<and> one_minus (cosine_distance w (embedding first) v) = Num 1
           \<and> ((\<forall>e\<in>set rows. cosine_distance w (embedding e) v = Num 0 \<longrightarrow>
                   document e = document chunk)
                \<longrightarrow> document first = document chunk)"
proof -
  let ?key = "\<lambda>e. order_key (cosine_distance w (embedding e) v)"
  let ?sorted = "sort_key ?key rows"
  have run: "custom_similarity_search_with_scores embeddings query k w =
               (Inr (map (\<lambda>e. (\<lparr>page_content = document e, metadata = []\<rparr>,
                                one_minus (cosine_distance w (embedding e) v)))
                       (take (nat k) ?sorted)),
                w\<lparr>embed_log := embed_log w @ [query]\<rparr>)"
    using assms(1-6) by (rule search_positive)
  from sort_key_hd_least [OF assms(7), of ?key]
  obtain t ts where s: "?sorted = t # ts" and least: "?key t \<le> ?key chunk" by blast
  obtain m where k: "nat k = Suc m" using assms(5) by (cases "nat k") auto
  have t_in: "t \<in> set rows" by (metis list.set_intros(1) s set_sort)
  have ts_in: "set ts \<subseteq> set rows" by (metis s set_sort set_subset_Cons)
  have "float8_le (cosine_distance w (embedding t) v) (Num 0)"
    using least assms(8,9) by (simp add: order_key_le)
  moreover have "float8_le (Num 0) (cosine_distance w (embedding t) v)"
    using assms(10) t_in by blast
  ultimately have zero: "cosine_distance w (embedding t) v = Num 0"
    by (cases "cosine_distance w (embedding t) v") (simp_all add: float8_le_def)
  have rest: "set (take m ts) \<subseteq> set rows" using ts_in set_take_subset [of m ts] by blast
  have "custom_similarity_search_with_scores embeddings query k w =
          (Inr (map (\<lambda>e. (\<lparr>page_content = document e, metadata = []\<rparr>,
                           one_minus (cosine_distance w (embedding e) v))) (t # take m ts)),
           w\<lparr>embed_log := embed_log w @ [query]\<rparr>)"
    using run by (simp add: s k)
  moreover have "one_minus (cosine_distance w (embedding t) v) = Num 1"
    by (simp add: zero one_minus_def)
  moreover have "document t = document chunk"
    if "\<forall>e\<in>set rows. cosine_distance w (embedding e) v = Num 0 \<longrightarrow> document e = document chunk"
    using that t_in zero by blast
  ultimately show ?thesis using t_in rest zero
    by (intro exI [of _ t] exI [of _ "take m ts"] exI) blast
qed

theorem search_round_trip_witness:
  "\<exists>(rest :: embedding_row list) w'. custom_similarity_search_with_scores stub_embed ''blue sky'' 2 demo_store =
       (Inr ((\<lparr>page_content = ''blue sky'', metadata = []\<rparr>, Num 1) #
               map (\<lambda>e. (\<lparr>page_content = document e, metadata = []\<rparr>,
                          one_minus (cosine_distance demo_store (embedding e) [0, 1]))) rest),
        w')"
proof -
  define q :: string where "q = ''blue sky''"
  define rows where "rows = the (embedding_table demo_store)"
  define chunk where
    "chunk = \<lparr>collection_id = 1, embedding = [0, 1], document = q, cmetadata = [],
               custom_id = 4\<rparr>"
  have h1: "stub_embed q = Some [0, 1]" by (simp add: q_def stub_embed_def)
  have h3: "embedding_table demo_store = Some rows" by (simp add: rows_def demo_store_facts)
  have h4: "\<forall>e\<in>set rows. length (embedding e) = length [0, 1 :: real]"
    by (simp add: rows_def demo_store_facts)
  have h5: "(1::int) \<le> 2" "(2::int) < 2 ^ 63" by simp_all
  have h6: "chunk \<in> set rows" by (simp add: rows_def chunk_def q_def demo_store_facts)
  have h7: "embedding chunk = [0, 1]" by (simp add: chunk_def)
  have h8: "cosine_distance demo_store [0, 1] [0, 1] = Num 0" by (simp add: demo_store_facts)
  have h9: "\<forall>e\<in>set rows. float8_le (Num 0) (cosine_distance demo_store (embedding e) [0, 1])"
    by (simp add: rows_def demo_store_facts float8_le_def)
  have only: "\<forall>e\<in>set rows. cosine_distance demo_store (embedding e) [0, 1] = Num 0 \<longrightarrow>
                document e = document chunk"
    by (simp add: rows_def chunk_def q_def demo_store_facts)
  have "\<exists>(rest :: embedding_row list) w'. custom_similarity_search_with_scores stub_embed q 2 demo_store =
       (Inr ((\<lparr>page_content = q, metadata = []\<rparr>, Num 1) #
               map (\<lambda>e. (\<lparr>page_content = document e, metadata = []\<rparr>,
                          one_minus (cosine_distance demo_store (embedding e) [0, 1]))) rest),
        w')"
    using search_round_trip
         [of stub_embed q "[0, 1]" demo_store rows 2 chunk,
          OF h1 demo_store_facts(1) h3 h4 h5 h6 h7 h8 h9]
    apply (elim exE conjE)
    subgoal for first rest w'
      using only by (intro exI [of _ rest] exI [of _ w']) (simp add: chunk_def)
    done
  then show ?thesis by (simp only: q_def)
qed

text \<open>
  C8. The claim: \<open>delete_collection\<close> never raises for a missing name, and after it the name
  is not among the names \<open>get_collections\<close> returns. The code returns without an error, but it
  deletes nothing: the library's delete runs in the service's connection, which is closed
  without a commit. On the store with collection \<open>A\<close>, \<open>delete_collection\<close> of \<open>A\<close> returns
  without an error and \<open>A\<close> is still registered, with its two rows.
\<close>

theorem delete_collection_does_not_delete:
  "fst (delete_collection ''A'' demo_store) = Inr ()
   \<and> get_collections (snd (delete_collection ''A'' demo_store)) = Inr [''A'', ''B'']
   \<and> map document (rows_of ''A'' (snd (delete_collection ''A'' demo_store))) =
       [''red fox'', ''blue sky'']"
  by (simp add: delete_collection_result delete_collection_world demo_store_facts
      demo_store_rows)

text \<open>
  C9, as stated, fails: the connection is opened outside the \<open>try\<close>, so when it cannot be
  opened \<open>get_collections\<close> raises.
\<close>

theorem get_collections_raises_unconnected:
  "get_collections (demo_store\<lparr>connectable := False\<rparr>) = Inl StoreUnavailable"
  by (simp add: get_collections_def)

text \<open>
  C9, amended. Once the connection is open, \<open>get_collections\<close> raises for no state of the
  registry table: it returns a list, the empty one when the table does not exist and when it
  exists and cannot be read.
\<close>

theorem get_collections_fails_open:
  assumes "connectable w"
  shows "\<exists>names. get_collections w = Inr names
           \<and> (collection_table w = None \<or> \<not> registry_readable w \<longrightarrow> names = [])"
  using assms
  by (auto simp add: get_collections_def select_from_collection_def split: option.splits)

theorem get_collections_fails_open_witness:
  "connectable no_tables \<and> collection_table no_tables = None
     \<and> get_collections no_tables = Inr []
     \<and> connectable locked_registry \<and> \<not> registry_readable locked_registry
     \<and> map name (collection_rows locked_registry) = [''A'', ''B'']
     \<and> get_collections locked_registry = Inr []"
  using get_collections_fails_open [of no_tables] get_collections_fails_open [of locked_registry]
  by (auto simp add: no_tables_def locked_registry_def demo_store_def collection_rows_def)

text \<open>
  C10. With \<open>docs = None\<close>, \<open>update_collection\<close> leaves the world as it was, whatever the
  collection name and the state of the store: no text is sent to the embedding provider, no
  registry row and no embedding row is written or deleted. It returns without an error
  whenever the connection for the initial \<open>get_collections\<close> opens.
\<close>

theorem update_collection_none_noop:
  "snd (update_collection embeddings None n w) = w
     \<and> (connectable w \<longrightarrow> update_collection embeddings None n w = (Inr (), w))"
  by (simp add: update_collection_def get_collections_def)

theorem update_collection_none_noop_witness:
  "connectable demo_store \<and> update_collection stub_embed None ''A'' demo_store = (Inr (), demo_store)"
  using update_collection_none_noop [of stub_embed "''A''" demo_store]
  by (simp add: demo_store_facts)

end
